theory Spec2Isabelle
  imports Complex_Main
begin

section \<open>Conventions of the embedding\<close>

text \<open>
  The Python sources compute with IEEE doubles inside pandas and numpy containers. The
  embedding idealises a double as a \<^typ>\<open>real\<close>: rounding, infinities and NaN produced by
  arithmetic are not represented. A missing table cell (NaN in a price or weight table) is
  \<open>None\<close> of an option type. A pandas \<open>Series\<close> indexed by the asset symbols is a function
  from symbols to numbers, read only at the symbols of the asset universe; a numpy vector
  is a list. The price table and the weight table are taken to have the asset universe
  as their columns, in the order of \<open>settings.ASSET_SYMBOLS\<close>.
\<close>

type_synonym symbol = string
type_synonym series = "symbol \<Rightarrow> real"

text \<open>\<open>ValueError\<close> is the exception the sources raise. \<open>EmptyWindowError\<close> is the
  failure the specification names for the estimators; it is here so that a result can say
  whether it was signalled.\<close>

datatype error = ValueError | EmptyWindowError

subsection \<open>config/settings.py\<close>

record settings =
  ASSET_SYMBOLS :: "symbol list"
  VOL_WINDOW :: nat
  REGIME_THRESHOLD_HIGH_VOL :: real
  REGIME_THRESHOLD_LOW_VOL :: real
  OPTIMIZATION_WINDOW :: nat
  TARGET_RISK_ANNUAL :: real
  LAMBDA_RISK_AVERSION :: real
  INITIAL_CAPITAL :: real
  TRANSACTION_COST_BPS :: real
  SLIPPAGE_BPS :: real

definition default_settings :: settings where
  "default_settings =
     \<lparr>ASSET_SYMBOLS = [''SPY'', ''QQQ'', ''GLD'', ''TLT'', ''EEM'', ''VNQ''],
      VOL_WINDOW = 20,
      REGIME_THRESHOLD_HIGH_VOL = 15 / 1000,
      REGIME_THRESHOLD_LOW_VOL = 5 / 1000,
      OPTIMIZATION_WINDOW = 60,
      TARGET_RISK_ANNUAL = 15 / 100,
      LAMBDA_RISK_AVERSION = 1 / 2,
      INITIAL_CAPITAL = 1000000000,
      TRANSACTION_COST_BPS = 2,
      SLIPPAGE_BPS = 1\<rparr>"

section \<open>src/backtester.py\<close>

record backtester =
  initial_capital :: real
  transaction_cost_rate :: real
  slippage_rate :: real

text \<open>\<open>Backtester.__init__\<close>: basis points become fractional rates.\<close>

definition Backtester_init :: "real \<Rightarrow> real \<Rightarrow> real \<Rightarrow> backtester" where
  "Backtester_init capital transaction_cost_bps slippage_bps =
     \<lparr>initial_capital = capital,
      transaction_cost_rate = transaction_cost_bps / 10000,
      slippage_rate = slippage_bps / 10000\<rparr>"

text \<open>\<open>Backtester._calculate_trade_cost\<close>, on two numpy vectors of equal length.\<close>

definition calculate_trade_cost :: "backtester \<Rightarrow> real list \<Rightarrow> real list \<Rightarrow> real \<Rightarrow> real" where
  "calculate_trade_cost bt old_weights new_weights current_portfolio_value =
     (let old_allocation = map (\<lambda>w. w * current_portfolio_value) old_weights;
          new_allocation = map (\<lambda>w. w * current_portfolio_value) new_weights;
          capital_traded = (\<Sum>(n, old) \<leftarrow> zip new_allocation old_allocation. \<bar>n - old\<bar>);
          total_cost = capital_traded * (transaction_cost_rate bt + slippage_rate bt)
      in total_cost)"

text \<open>A row of \<open>df_merged\<close>: the date with its \<open>Price\<close> and \<open>Weight\<close> cells.\<close>

record table_row =
  row_date :: nat
  Price :: "symbol \<Rightarrow> real option"
  Weight :: "symbol \<Rightarrow> real option"

text \<open>One dictionary appended to \<open>portfolio_history_list\<close>; \<open>Weights\<close> holds the
  \<open>Weight_<symbol>\<close> entries in the order of the asset universe.\<close>

record history_entry =
  Date :: nat
  Total_Value :: real
  Cash :: real
  Asset_Value :: real
  Weights :: "(symbol \<times> real) list"

text \<open>The local variables of \<open>run_backtest\<close> that live across loop iterations. The
  warnings printed for skipped buys are kept as a list of (date, symbol).\<close>

record sim_state =
  portfolio_value :: real
  cash_balance :: real
  current_holdings :: series
  previous_weights :: series
  trade_cost :: real
  portfolio_history_list :: "history_entry list"
  warnings :: "(nat \<times> symbol) list"

text \<open>The body of \<open>for symbol in asset_symbols_ordered\<close> (lines 77 to 88).
  \<open>shares_to_trade\<close> was computed before the loop and is not updated by it.\<close>

definition trade_symbol :: "nat \<Rightarrow> series \<Rightarrow> series \<Rightarrow> sim_state \<Rightarrow> symbol \<Rightarrow> sim_state" where
  "trade_symbol date shares_to_trade current_prices st symbol =
     (if shares_to_trade symbol > 0 then
        (let buy_amount = shares_to_trade symbol * current_prices symbol in
         if cash_balance st \<ge> buy_amount then
           st\<lparr>current_holdings :=
                (current_holdings st)(symbol := current_holdings st symbol + shares_to_trade symbol),
              cash_balance := cash_balance st - buy_amount\<rparr>
         else st\<lparr>warnings := warnings st @ [(date, symbol)]\<rparr>)
      else if shares_to_trade symbol < 0 then
        (let sell_amount = shares_to_trade symbol * current_prices symbol in
         st\<lparr>current_holdings :=
              (current_holdings st)(symbol := current_holdings st symbol + shares_to_trade symbol),
            cash_balance := cash_balance st - sell_amount\<rparr>)
      else st)"

definition execute_trades :: "nat \<Rightarrow> series \<Rightarrow> series \<Rightarrow> sim_state \<Rightarrow> symbol list \<Rightarrow> sim_state" where
  "execute_trades date shares_to_trade current_prices st asset_symbols_ordered =
     foldl (trade_symbol date shares_to_trade current_prices) st asset_symbols_ordered"

text \<open>Lines 65 to 71: the value of the portfolio at the date's prices, the trade cost
  against the weights of the previous date, and its deduction from the cash.\<close>

definition charge_cost :: "settings \<Rightarrow> backtester \<Rightarrow> sim_state \<Rightarrow> series \<Rightarrow> series \<Rightarrow> sim_state" where
  "charge_cost cfg bt st current_prices target_weights =
     (let asset_symbols_ordered = ASSET_SYMBOLS cfg;
          current_asset_values = (\<lambda>s. current_holdings st s * current_prices s);
          pv = (\<Sum>s \<leftarrow> asset_symbols_ordered. current_asset_values s) + cash_balance st;
          tc = calculate_trade_cost bt (map (previous_weights st) asset_symbols_ordered)
                 (map target_weights asset_symbols_ordered) pv
      in st\<lparr>portfolio_value := pv, trade_cost := tc, cash_balance := cash_balance st - tc\<rparr>)"

text \<open>Lines 70, 73 and 74, read in the state that \<open>charge_cost\<close> returns.\<close>

definition shares_to_trade :: "sim_state \<Rightarrow> series \<Rightarrow> series \<Rightarrow> series" where
  "shares_to_trade st current_prices target_weights =
     (let portfolio_value_after_cost = portfolio_value st - trade_cost st;
          target_shares = (\<lambda>s. (target_weights s * portfolio_value_after_cost) / current_prices s)
      in (\<lambda>s. target_shares s - current_holdings st s))"

text \<open>Lines 90 to 107. \<open>current_asset_values\<close> is the series computed on line 65, before
  the trades of the date.\<close>

definition record_date :: "settings \<Rightarrow> nat \<Rightarrow> series \<Rightarrow> series \<Rightarrow> sim_state \<Rightarrow> sim_state" where
  "record_date cfg date current_asset_values current_prices st =
     (let asset_symbols_ordered = ASSET_SYMBOLS cfg;
          final_asset_value = (\<Sum>s \<leftarrow> asset_symbols_ordered. current_holdings st s * current_prices s);
          final_portfolio_value = final_asset_value + cash_balance st;
          current_weights =
            (\<lambda>s. if final_portfolio_value \<noteq> 0 then current_asset_values s / final_portfolio_value else 0);
          entry = \<lparr>Date = date, Total_Value = final_portfolio_value, Cash = cash_balance st,
                   Asset_Value = final_asset_value,
                   Weights = map (\<lambda>s. (s, current_weights s)) asset_symbols_ordered\<rparr>
      in st\<lparr>portfolio_history_list := portfolio_history_list st @ [entry],
            previous_weights := (if final_portfolio_value = 0 then (\<lambda>s. 0) else current_weights)\<rparr>)"

text \<open>Lines 65 to 107: one iteration of the date loop, once the prices are known to be
  present.\<close>

definition process_date :: "settings \<Rightarrow> backtester \<Rightarrow> sim_state \<Rightarrow> nat \<Rightarrow> series \<Rightarrow> series \<Rightarrow> sim_state" where
  "process_date cfg bt st date current_prices target_weights =
     (let current_asset_values = (\<lambda>s. current_holdings st s * current_prices s);
          st1 = charge_cost cfg bt st current_prices target_weights;
          st2 = execute_trades date (shares_to_trade st1 current_prices target_weights)
                  current_prices st1 (ASSET_SYMBOLS cfg)
      in record_date cfg date current_asset_values current_prices st2)"

text \<open>\<open>df_merged.dropna()\<close>: a row with a missing price or weight is dropped.\<close>

definition dropna :: "settings \<Rightarrow> table_row list \<Rightarrow> table_row list" where
  "dropna cfg rows =
     filter (\<lambda>r. \<forall>s \<in> set (ASSET_SYMBOLS cfg). Price r s \<noteq> None \<and> Weight r s \<noteq> None) rows"

definition initial_state :: "backtester \<Rightarrow> sim_state" where
  "initial_state bt =
     \<lparr>portfolio_value = initial_capital bt, cash_balance = initial_capital bt,
      current_holdings = (\<lambda>s. 0), previous_weights = (\<lambda>s. 0), trade_cost = 0,
      portfolio_history_list = [], warnings = []\<rparr>"

text \<open>Lines 54 to 107: the loop body with its \<open>continue\<close> on a missing price. The rows
  that reach the loop have passed \<open>dropna\<close>, so every cell read here is present.\<close>

definition loop_body :: "settings \<Rightarrow> backtester \<Rightarrow> sim_state \<Rightarrow> table_row \<Rightarrow> sim_state" where
  "loop_body cfg bt st row =
     (if \<exists>s \<in> set (ASSET_SYMBOLS cfg). Price row s = None then st
      else process_date cfg bt st (row_date row) (\<lambda>s. the (Price row s)) (\<lambda>s. the (Weight row s)))"

text \<open>\<open>Backtester.run_backtest\<close>. On an empty merged table the \<open>strftime\<close> of line 49 is
  called on the minimum of an empty date index, which is not a date, and raises.\<close>

definition run_backtest :: "settings \<Rightarrow> backtester \<Rightarrow> table_row list \<Rightarrow> error + history_entry list" where
  "run_backtest cfg bt rows =
     (let df_merged = dropna cfg rows in
      if df_merged = [] then Inl ValueError
      else Inr (portfolio_history_list (foldl (loop_body cfg bt) (initial_state bt) df_merged)))"

section \<open>src/portfolio_optimizer.py\<close>

text \<open>A pandas \<open>DataFrame\<close> of numbers: the column labels and the rows, each row with one
  number per column. \<open>DataFrame.empty\<close> holds when either axis has length zero. A
  \<open>Series\<close> of estimates over the columns is the list of its values.\<close>

record data_frame =
  columns :: "symbol list"
  rows :: "real list list"

definition df_empty :: "data_frame \<Rightarrow> bool" where
  "df_empty df \<longleftrightarrow> columns df = [] \<or> rows df = []"

definition column_of :: "data_frame \<Rightarrow> nat \<Rightarrow> real list" where
  "column_of df j = map (\<lambda>r. r ! j) (rows df)"

definition mean_list :: "real list \<Rightarrow> real" where
  "mean_list xs = sum_list xs / real (length xs)"

text \<open>\<open>DataFrame.mean()\<close>: the mean of each column.\<close>

definition frame_mean :: "data_frame \<Rightarrow> real list" where
  "frame_mean df = map (\<lambda>j. mean_list (column_of df j)) [0..<length (columns df)]"

text \<open>\<open>DataFrame.cov()\<close>: the sample covariance of each pair of columns, with divisor
  \<open>R - 1\<close> for \<open>R\<close> rows. For a single row pandas yields NaN in every cell, which the
  real-valued model does not represent; nothing below depends on the cells.\<close>

definition cov_lists :: "real list \<Rightarrow> real list \<Rightarrow> real" where
  "cov_lists xs ys =
     (\<Sum>(x, y) \<leftarrow> zip xs ys. (x - mean_list xs) * (y - mean_list ys)) / (real (length xs) - 1)"

definition frame_cov :: "data_frame \<Rightarrow> data_frame" where
  "frame_cov df =
     \<lparr>columns = columns df,
      rows = map (\<lambda>i. map (\<lambda>j. cov_lists (column_of df i) (column_of df j))
                      [0..<length (columns df)]) [0..<length (columns df)]\<rparr>"

definition calculate_covariance_matrix :: "data_frame \<Rightarrow> error + data_frame" where
  "calculate_covariance_matrix returns =
     (if df_empty returns then Inr \<lparr>columns = [], rows = []\<rparr>
      else (let cov_matrix = frame_cov returns in Inr cov_matrix))"

definition calculate_expected_returns :: "data_frame \<Rightarrow> error + real list" where
  "calculate_expected_returns returns =
     (if df_empty returns then Inr []
      else (let expected_returns = frame_mean returns in Inr expected_returns))"

subsection \<open>The problem handed to \<open>scipy.optimize.minimize\<close>\<close>

text \<open>A constraint dictionary \<open>{'type': 'eq', 'fun': f}\<close> is \<open>Eq f\<close>. The value of the
  variable \<open>cons\<close> is a single dictionary or a tuple; a member of the tuple is a
  dictionary or, once \<open>list\<close> has been applied to a dictionary, one of its keys.\<close>

datatype constraint_dict = Eq "real list \<Rightarrow> real"

datatype cons_member = Member constraint_dict | Key string

datatype cons_value = Single constraint_dict | Tuple "cons_member list"

text \<open>\<open>list(cons) if cons else []\<close>: a dictionary lists its keys.\<close>

fun list_of_cons :: "cons_value \<Rightarrow> cons_member list" where
  "list_of_cons (Single d) = [Key ''type'', Key ''fun'']"
| "list_of_cons (Tuple ms) = ms"

text \<open>\<open>len(cons)\<close> and \<open>cons[0]['fun']\<close>; the latter is read only when \<open>cons\<close> is the
  pair of dictionaries of the target-risk branch.\<close>

fun len_cons :: "cons_value \<Rightarrow> nat" where
  "len_cons (Single d) = 2"
| "len_cons (Tuple ms) = length ms"

fun first_fun :: "cons_value \<Rightarrow> (real list \<Rightarrow> real) option" where
  "first_fun (Tuple (Member (Eq f) # ms)) = Some f"
| "first_fun c = None"

record problem =
  objective_function :: "real list \<Rightarrow> real"
  x0 :: "real list"
  bounds :: "(real \<times> real) list option"
  cons :: cons_value

text \<open>What the call of \<open>minimize\<close> does: it returns a result with \<open>success\<close> set and the
  point \<open>x\<close>, a result with \<open>success\<close> unset, or it raises. The solver is not part of
  the repository and is a parameter of the allocator.\<close>

datatype minimize_result = Success "real list" | Failed | Raised

type_synonym minimize = "problem \<Rightarrow> minimize_result"

definition dot :: "real list \<Rightarrow> real list \<Rightarrow> real" where
  "dot xs ys = (\<Sum>(x, y) \<leftarrow> zip xs ys. x * y)"

text \<open>\<open>weights.T @ cov_mat @ weights\<close>.\<close>

definition quadratic_form :: "real list \<Rightarrow> data_frame \<Rightarrow> real" where
  "quadratic_form weights cov_mat = dot (map (dot weights) (transpose (rows cov_mat))) weights"

definition portfolio_variance :: "real list \<Rightarrow> data_frame \<Rightarrow> real" where
  "portfolio_variance weights cov_mat = sqrt (quadratic_form weights cov_mat)"

definition utility_function :: "real list \<Rightarrow> real list \<Rightarrow> data_frame \<Rightarrow> real \<Rightarrow> real" where
  "utility_function weights exp_ret cov_mat lambda_val =
     (let port_return = dot weights exp_ret;
          port_variance = quadratic_form weights cov_mat
      in - (port_return - (1 / 2) * lambda_val * port_variance))"

text \<open>The \<open>constraints\<close> argument: \<open>None\<close> or a dictionary from option names to flags.
  \<open>constraints and constraints.get(key, False)\<close> is false for \<open>None\<close> and for the empty
  dictionary.\<close>

type_synonym constraints = "(string \<times> bool) list option"

definition constraint_flag :: "constraints \<Rightarrow> string \<Rightarrow> bool" where
  "constraint_flag c key =
     (case c of None \<Rightarrow> False
      | Some kvs \<Rightarrow> kvs \<noteq> [] \<and> (case map_of kvs key of None \<Rightarrow> False | Some b \<Rightarrow> b))"

text \<open>\<open>np.clip(w, 0, 1)\<close> and \<open>np.ones(n) / n\<close>.\<close>

definition clip01 :: "real list \<Rightarrow> real list" where
  "clip01 ws = map (\<lambda>w. min 1 (max 0 w)) ws"

definition equal_weights :: "nat \<Rightarrow> real list" where
  "equal_weights n = map (\<lambda>w. w / real n) (replicate n 1)"

text \<open>Lines 60 to 86: the objective and the constraints of the chosen goal, or the
  \<open>ValueError\<close> when no goal is given.\<close>

definition choose_objective ::
  "real list \<Rightarrow> data_frame \<Rightarrow> real option \<Rightarrow> real option \<Rightarrow> error + (real list \<Rightarrow> real) \<times> cons_value" where
  "choose_objective annual_expected_returns annual_cov_matrix target_risk risk_aversion_lambda =
     (case target_risk of
        Some tr \<Rightarrow>
          Inr (\<lambda>w. portfolio_variance w annual_cov_matrix,
               Tuple [Member (Eq (\<lambda>w. sum_list w - 1)),
                      Member (Eq (\<lambda>w. portfolio_variance w annual_cov_matrix - tr))])
      | None \<Rightarrow>
          (case risk_aversion_lambda of
             Some l \<Rightarrow>
               Inr (\<lambda>w. utility_function w annual_expected_returns annual_cov_matrix l,
                    Single (Eq (\<lambda>w. sum_list w - 1)))
           | None \<Rightarrow> Inl ValueError))"

text \<open>Lines 92 to 97: the sum-to-one constraint is appended when the goal is not the
  target risk.\<close>

definition add_sum_to_one :: "constraints \<Rightarrow> real option \<Rightarrow> real list \<Rightarrow> cons_value \<Rightarrow> cons_value" where
  "add_sum_to_one c target_risk initial_weights cs =
     (if constraint_flag c ''sum_to_one'' \<and>
         \<not> (target_risk \<noteq> None \<and> len_cons cs > 0 \<and>
            (case first_fun cs of Some f \<Rightarrow> f initial_weights = 0 | None \<Rightarrow> False))
      then (if target_risk = None
            then Tuple (list_of_cons cs @ [Member (Eq (\<lambda>w. sum_list w - 1))])
            else cs)
      else cs)"

text \<open>Lines 99 to 115: the call of the solver and what is returned for each outcome.\<close>

definition solve :: "minimize \<Rightarrow> problem \<Rightarrow> nat \<Rightarrow> real list" where
  "solve minimize_fn p num_assets =
     (case minimize_fn p of
        Success x \<Rightarrow>
          (let optimal_weights = clip01 x in
           if sum_list optimal_weights \<noteq> 0
           then map (\<lambda>w. w / sum_list optimal_weights) optimal_weights
           else equal_weights num_assets)
      | Failed \<Rightarrow> equal_weights num_assets
      | Raised \<Rightarrow> replicate num_assets 1)"

definition mean_variance_optimization ::
  "minimize \<Rightarrow> real list \<Rightarrow> data_frame \<Rightarrow> real option \<Rightarrow> real option \<Rightarrow> constraints \<Rightarrow> error + real list" where
  "mean_variance_optimization minimize_fn expected_returns cov_matrix target_risk risk_aversion_lambda c =
     (let num_assets = length expected_returns in
      if num_assets = 0 then Inr []
      else
        (let initial_weights = equal_weights num_assets;
             annualization_factor = 252;
             annual_expected_returns = map (\<lambda>r. r * annualization_factor) expected_returns;
             annual_cov_matrix =
               cov_matrix\<lparr>rows := map (map (\<lambda>v. v * annualization_factor)) (rows cov_matrix)\<rparr>
         in case choose_objective annual_expected_returns annual_cov_matrix target_risk risk_aversion_lambda of
              Inl e \<Rightarrow> Inl e
            | Inr (objective, cs) \<Rightarrow>
                (let bnds = (if constraint_flag c ''long_only''
                             then Some (replicate num_assets (0, 1)) else None);
                     cs' = add_sum_to_one c target_risk initial_weights cs
                 in Inr (solve minimize_fn
                          \<lparr>objective_function = objective, x0 = initial_weights,
                           bounds = bnds, cons = cs'\<rparr> num_assets))))"

section \<open>src/strategy_engine.py\<close>

text \<open>The arguments of one call of the allocator. The selector returns, with its result,
  the calls it has made, in order.\<close>

record allocator_call =
  call_expected_returns :: "real list"
  call_cov_matrix :: data_frame
  call_target_risk :: "real option"
  call_risk_aversion_lambda :: "real option"
  call_constraints :: constraints

definition generate_regime_specific_weights ::
  "settings \<Rightarrow> minimize \<Rightarrow> string \<Rightarrow> data_frame \<Rightarrow> allocator_call list \<times> (error + real list)" where
  "generate_regime_specific_weights cfg minimize_fn current_regime lookback_returns =
     (let num_assets = length (columns lookback_returns);
          weights = equal_weights num_assets
      in if df_empty lookback_returns then ([], Inr weights)
         else
           (let expected_returns = frame_mean lookback_returns;
                cov_matrix = frame_cov lookback_returns;
                both = Some [(''sum_to_one'', True), (''long_only'', True)];
                call =
                  (if current_regime = ''High_Vol'' then
                     \<lparr>call_expected_returns = expected_returns, call_cov_matrix = cov_matrix,
                      call_target_risk = Some (TARGET_RISK_ANNUAL cfg * (1 / 2)),
                      call_risk_aversion_lambda = None, call_constraints = both\<rparr>
                   else if current_regime = ''Low_Vol'' then
                     \<lparr>call_expected_returns = expected_returns, call_cov_matrix = cov_matrix,
                      call_target_risk = None,
                      call_risk_aversion_lambda = Some (LAMBDA_RISK_AVERSION cfg * (3 / 2)),
                      call_constraints = both\<rparr>
                   else
                     \<lparr>call_expected_returns = expected_returns, call_cov_matrix = cov_matrix,
                      call_target_risk = None,
                      call_risk_aversion_lambda = Some (LAMBDA_RISK_AVERSION cfg),
                      call_constraints = both\<rparr>)
            in case mean_variance_optimization minimize_fn (call_expected_returns call)
                      (call_cov_matrix call) (call_target_risk call)
                      (call_risk_aversion_lambda call) (call_constraints call) of
                 Inl e \<Rightarrow> ([call], Inl e)
               | Inr allocated \<Rightarrow>
                   (let clipped = clip01 allocated in
                    if sum_list clipped \<noteq> 0
                    then ([call], Inr (map (\<lambda>w. w / sum_list clipped) clipped))
                    else ([call], Inr (equal_weights num_assets)))))"

section \<open>src/market_analyzer.py\<close>

text \<open>\<open>regime[mask] = label\<close>: the label is written where the mask holds.\<close>

definition assign_where :: "string list \<Rightarrow> bool list \<Rightarrow> string \<Rightarrow> string list" where
  "assign_where regime msk label = map (\<lambda>(r, m). if m then label else r) (zip regime msk)"

text \<open>\<open>identify_regimes\<close>. The frame is the list of its named columns.\<close>

definition identify_regimes ::
  "(string \<times> real list) list \<Rightarrow> string \<Rightarrow> real \<Rightarrow> real \<Rightarrow> error + string list" where
  "identify_regimes df vol_col high_threshold low_threshold =
     (case map_of df vol_col of
        None \<Rightarrow> Inl ValueError
      | Some vol \<Rightarrow>
          (let regime = replicate (length vol) ''Normal_Vol'';
               regime = assign_where regime (map (\<lambda>v. v \<ge> high_threshold) vol) ''High_Vol'';
               regime = assign_where regime (map (\<lambda>v. v \<le> low_threshold) vol) ''Low_Vol''
           in Inr regime))"

section \<open>Notions used in the statements\<close>

text \<open>The value of the holdings at given prices, \<open>(current_holdings * current_prices).sum()\<close>.\<close>

definition asset_value :: "symbol list \<Rightarrow> series \<Rightarrow> series \<Rightarrow> real" where
  "asset_value syms holdings prices = (\<Sum>s \<leftarrow> syms. holdings s * prices s)"

text \<open>A portfolio weight vector that is valid for a long-only allocation.\<close>

definition valid_weights :: "real list \<Rightarrow> bool" where
  "valid_weights ws \<longleftrightarrow> list_all (\<lambda>w. 0 \<le> w \<and> w \<le> 1) ws \<and> sum_list ws = 1"

section \<open>Example inputs\<close>

text \<open>A universe of two assets, in both orders.\<close>

definition two_assets :: settings where
  "two_assets = default_settings\<lparr>ASSET_SYMBOLS := [''A'', ''B'']\<rparr>"

definition two_assets_swapped :: settings where
  "two_assets_swapped = default_settings\<lparr>ASSET_SYMBOLS := [''B'', ''A'']\<rparr>"

text \<open>Prices 100 for A and 50 for B, half of the value in each, capital 10000 and the
  cost rates of the settings.\<close>

definition prices_100_50 :: series where
  "prices_100_50 = (\<lambda>s. if s = ''A'' then 100 else 50)"

definition half_each :: series where
  "half_each = (\<lambda>s. 1 / 2)"

definition small_backtester :: backtester where
  "small_backtester = Backtester_init 10000 2 1"

text \<open>A state that holds 100 shares of A and no cash, and target weights that put
  everything in B: at unit prices the step wants to sell 100 of A and buy 100 of B.\<close>

definition holding_A_state :: sim_state where
  "holding_A_state =
     (initial_state (Backtester_init 100 0 0))
       \<lparr>current_holdings := (\<lambda>s. 0)(''A'' := 100), cash_balance := 0\<rparr>"

definition all_in_B :: series where
  "all_in_B = (\<lambda>s. if s = ''B'' then 1 else 0)"

text \<open>Unit prices, target weights of 60 percent for each of the two assets, capital 100
  and no costs: the two desired buys of 60 cannot both be paid.\<close>

definition unit_prices :: series where
  "unit_prices = (\<lambda>s. 1)"

definition sixty_each :: series where
  "sixty_each = (\<lambda>s. 6 / 10)"

definition free_backtester :: backtester where
  "free_backtester = Backtester_init 100 0 0"

text \<open>Solvers for the examples: one that raises and one that reports no convergence.\<close>

definition raising_minimize :: minimize where
  "raising_minimize = (\<lambda>p. Raised)"

definition failing_minimize :: minimize where
  "failing_minimize = (\<lambda>p. Failed)"


definition zero_row_window :: data_frame where
  "zero_row_window = \<lparr>columns = [''A'', ''B''], rows = []\<rparr>"

definition identity_cov :: data_frame where
  "identity_cov = \<lparr>columns = [''A'', ''B''], rows = [[1, 0], [0, 1]]\<rparr>"

definition both_constraints :: constraints where
  "both_constraints = Some [(''sum_to_one'', True), (''long_only'', True)]"

section \<open>The trade loop keeps the value of the portfolio\<close>

lemma sum_list_holdings_upd:
  "distinct xs \<Longrightarrow>
   (\<Sum>x \<leftarrow> xs. (h(s := h s + d)) x * (p x :: real)) =
   (\<Sum>x \<leftarrow> xs. h x * p x) + (if s \<in> set xs then d * p s else 0)"
  by (induction xs) (auto simp: algebra_simps)

lemma trade_symbol_cases:
  "trade_symbol date d p st s = st\<lparr>warnings := warnings st @ [(date, s)]\<rparr> \<or>
   trade_symbol date d p st s = st \<or>
   trade_symbol date d p st s =
     st\<lparr>current_holdings := (current_holdings st)(s := current_holdings st s + d s),
        cash_balance := cash_balance st - d s * p s\<rparr>"
  by (simp add: trade_symbol_def Let_def)

lemma trade_symbol_value:
  assumes "distinct syms" "s \<in> set syms"
  shows "cash_balance (trade_symbol date d p st s)
           + asset_value syms (current_holdings (trade_symbol date d p st s)) p
         = cash_balance st + asset_value syms (current_holdings st) p"
  using trade_symbol_cases[of date d p st s] assms
  by (auto simp add: asset_value_def sum_list_holdings_upd simp del: fun_upd_apply)

lemma execute_trades_Cons:
  "execute_trades date d p st (y # ys) = execute_trades date d p (trade_symbol date d p st y) ys"
  by (simp add: execute_trades_def)

lemma execute_trades_value:
  assumes "distinct syms" "set ys \<subseteq> set syms"
  shows "cash_balance (execute_trades date d p st ys)
           + asset_value syms (current_holdings (execute_trades date d p st ys)) p
         = cash_balance st + asset_value syms (current_holdings st) p"
  using assms(2)
proof (induction ys arbitrary: st)
  case Nil
  then show ?case by (simp add: execute_trades_def)
next
  case (Cons y ys)
  then show ?case using trade_symbol_value[OF assms(1), of y date d p st]
    by (simp add: execute_trades_Cons)
qed

lemma trade_symbol_keeps:
  "trade_cost (trade_symbol date d p st s) = trade_cost st"
  "portfolio_value (trade_symbol date d p st s) = portfolio_value st"
  "previous_weights (trade_symbol date d p st s) = previous_weights st"
  "portfolio_history_list (trade_symbol date d p st s) = portfolio_history_list st"
  by (simp_all add: trade_symbol_def Let_def)

lemma execute_trades_keeps:
  "trade_cost (execute_trades date d p st ys) = trade_cost st"
  "portfolio_value (execute_trades date d p st ys) = portfolio_value st"
  "previous_weights (execute_trades date d p st ys) = previous_weights st"
  "portfolio_history_list (execute_trades date d p st ys) = portfolio_history_list st"
  by (induction ys arbitrary: st) (simp_all add: execute_trades_def trade_symbol_keeps)

lemma record_date_keeps:
  "cash_balance (record_date cfg date cav p st) = cash_balance st"
  "current_holdings (record_date cfg date cav p st) = current_holdings st"
  "trade_cost (record_date cfg date cav p st) = trade_cost st"
  "warnings (record_date cfg date cav p st) = warnings st"
  by (simp_all add: record_date_def Let_def)

lemma charge_cost_fields:
  "cash_balance (charge_cost cfg bt st p tw) = cash_balance st - trade_cost (charge_cost cfg bt st p tw)"
  "current_holdings (charge_cost cfg bt st p tw) = current_holdings st"
  "trade_cost (charge_cost cfg bt st p tw) =
     calculate_trade_cost bt (map (previous_weights st) (ASSET_SYMBOLS cfg)) (map tw (ASSET_SYMBOLS cfg))
       (asset_value (ASSET_SYMBOLS cfg) (current_holdings st) p + cash_balance st)"
  by (simp_all add: charge_cost_def Let_def asset_value_def)

lemma process_date_stages:
  "process_date cfg bt st date p tw =
     record_date cfg date (\<lambda>s. current_holdings st s * p s) p
       (execute_trades date (shares_to_trade (charge_cost cfg bt st p tw) p tw) p
          (charge_cost cfg bt st p tw) (ASSET_SYMBOLS cfg))"
  by (simp add: process_date_def Let_def)

text \<open>The value after a date is the value before it less the cost of the date, whether
  or not a buy was skipped: a skipped buy changes neither the cash nor the holdings.\<close>

lemma process_date_value:
  assumes "distinct (ASSET_SYMBOLS cfg)"
  shows "cash_balance (process_date cfg bt st date p tw)
           + asset_value (ASSET_SYMBOLS cfg) (current_holdings (process_date cfg bt st date p tw)) p
         = cash_balance st + asset_value (ASSET_SYMBOLS cfg) (current_holdings st) p
           - trade_cost (process_date cfg bt st date p tw)"
proof -
  let ?st1 = "charge_cost cfg bt st p tw"
  let ?st2 = "execute_trades date (shares_to_trade ?st1 p tw) p ?st1 (ASSET_SYMBOLS cfg)"
  have "cash_balance ?st2 + asset_value (ASSET_SYMBOLS cfg) (current_holdings ?st2) p
        = cash_balance ?st1 + asset_value (ASSET_SYMBOLS cfg) (current_holdings ?st1) p"
    using execute_trades_value[OF assms, of "ASSET_SYMBOLS cfg"] by simp
  then show ?thesis
    by (simp add: process_date_stages record_date_keeps execute_trades_keeps charge_cost_fields(1,2))
qed

lemma process_date_trade_cost:
  "trade_cost (process_date cfg bt st date p tw)
   = calculate_trade_cost bt (map (previous_weights st) (ASSET_SYMBOLS cfg)) (map tw (ASSET_SYMBOLS cfg))
       (asset_value (ASSET_SYMBOLS cfg) (current_holdings st) p + cash_balance st)"
  by (simp add: process_date_stages record_date_keeps execute_trades_keeps charge_cost_fields(3))

text \<open>
  Claim C1. On a date on which no buy is skipped (no warning is added), the cash after
  the date plus the value of the holdings after it, at the prices of the date, is the
  cash before plus the value of the holdings before, at the same prices, less the trade
  cost of the date; and that cost is the one \<open>_calculate_trade_cost\<close> gives for the weights
  of the previous date, the target weights and the value before the trades. The symbols
  of the universe are distinct and the prices positive, as the price table has them
  (line 73 divides by the price).
\<close>

theorem conservation_without_skipped_buys:
  assumes "distinct (ASSET_SYMBOLS cfg)"
    and "\<forall>s \<in> set (ASSET_SYMBOLS cfg). 0 < current_prices s"
    and "warnings (process_date cfg bt st date current_prices target_weights) = warnings st"
  shows "cash_balance (process_date cfg bt st date current_prices target_weights)
           + asset_value (ASSET_SYMBOLS cfg)
               (current_holdings (process_date cfg bt st date current_prices target_weights)) current_prices
         = cash_balance st + asset_value (ASSET_SYMBOLS cfg) (current_holdings st) current_prices
           - trade_cost (process_date cfg bt st date current_prices target_weights)
       \<and> trade_cost (process_date cfg bt st date current_prices target_weights)
         = calculate_trade_cost bt (map (previous_weights st) (ASSET_SYMBOLS cfg))
             (map target_weights (ASSET_SYMBOLS cfg))
             (asset_value (ASSET_SYMBOLS cfg) (current_holdings st) current_prices + cash_balance st)"
  using process_date_value[OF assms(1)] process_date_trade_cost by simp

theorem conservation_without_skipped_buys_witness:
  "distinct (ASSET_SYMBOLS two_assets)
   \<and> ASSET_SYMBOLS two_assets = [''A'', ''B'']
   \<and> 0 < prices_100_50 ''A'' \<and> 0 < prices_100_50 ''B''
   \<and> warnings (process_date two_assets small_backtester (initial_state small_backtester) 0 prices_100_50 half_each)
       = warnings (initial_state small_backtester)
   \<and> trade_cost (process_date two_assets small_backtester (initial_state small_backtester) 0 prices_100_50 half_each) = 3
   \<and> cash_balance (process_date two_assets small_backtester (initial_state small_backtester) 0 prices_100_50 half_each)
       + asset_value (ASSET_SYMBOLS two_assets)
           (current_holdings (process_date two_assets small_backtester (initial_state small_backtester) 0
              prices_100_50 half_each)) prices_100_50
     = 10000 - 3"
  using conservation_without_skipped_buys[of two_assets prices_100_50 small_backtester
          "initial_state small_backtester" 0 half_each]
  by (simp add: two_assets_def default_settings_def prices_100_50_def half_each_def
        small_backtester_def Backtester_init_def initial_state_def process_date_def
        charge_cost_def calculate_trade_cost_def shares_to_trade_def execute_trades_def
        trade_symbol_def record_date_def asset_value_def Let_def)

section \<open>The execution step of a date\<close>

lemma trade_symbol_other:
  "s' \<noteq> s \<Longrightarrow> current_holdings (trade_symbol date d p st s') s = current_holdings st s"
  by (simp add: trade_symbol_def Let_def)

lemma trade_symbol_warnings_grow:
  "set (warnings st) \<subseteq> set (warnings (trade_symbol date d p st s))"
  by (auto simp add: trade_symbol_def Let_def)

lemma execute_trades_Nil: "execute_trades date d p st [] = st"
  by (simp add: execute_trades_def)

lemma execute_trades_other:
  "s \<notin> set ys \<Longrightarrow> current_holdings (execute_trades date d p st ys) s = current_holdings st s"
proof (induction ys arbitrary: st)
  case Nil
  show ?case by (simp add: execute_trades_Nil)
next
  case (Cons y ys)
  then have "y \<noteq> s" and "s \<notin> set ys" by auto
  then show ?case
    using Cons.IH[of "trade_symbol date d p st y"]
    by (simp add: execute_trades_Cons trade_symbol_other)
qed

lemma execute_trades_warnings_grow:
  "set (warnings st) \<subseteq> set (warnings (execute_trades date d p st ys))"
proof (induction ys arbitrary: st)
  case Nil
  show ?case by (simp add: execute_trades_Nil)
next
  case (Cons y ys)
  show ?case
    using trade_symbol_warnings_grow[of st date d p y] Cons[of "trade_symbol date d p st y"]
    by (auto simp add: execute_trades_Cons)
qed

lemma execute_trades_sell:
  "distinct ys \<Longrightarrow> s \<in> set ys \<Longrightarrow> d s < 0 \<Longrightarrow>
   current_holdings (execute_trades date d p st ys) s = current_holdings st s + d s"
proof (induction ys arbitrary: st)
  case Nil
  then show ?case by simp
next
  case (Cons y ys)
  show ?case
  proof (cases "y = s")
    case True
    then have "s \<notin> set ys" using Cons.prems(1) by simp
    then show ?thesis
      using True Cons.prems(3)
      by (simp add: execute_trades_Cons execute_trades_other trade_symbol_def Let_def)
  next
    case False
    then show ?thesis
      using Cons by (simp add: execute_trades_Cons trade_symbol_other)
  qed
qed

lemma execute_trades_hold:
  "d s = 0 \<Longrightarrow> current_holdings (execute_trades date d p st ys) s = current_holdings st s"
proof (induction ys arbitrary: st)
  case Nil
  then show ?case by (simp add: execute_trades_Nil)
next
  case (Cons y ys)
  have "current_holdings (trade_symbol date d p st y) s = current_holdings st s"
    using Cons.prems by (cases "y = s") (simp_all add: trade_symbol_def Let_def)
  then show ?case using Cons by (simp add: execute_trades_Cons)
qed

lemma execute_trades_buy:
  "distinct ys \<Longrightarrow> s \<in> set ys \<Longrightarrow> 0 < d s \<Longrightarrow>
   current_holdings (execute_trades date d p st ys) s = current_holdings st s + d s
   \<or> (current_holdings (execute_trades date d p st ys) s = current_holdings st s
       \<and> (date, s) \<in> set (warnings (execute_trades date d p st ys)))"
proof (induction ys arbitrary: st)
  case Nil
  then show ?case by simp
next
  case (Cons y ys)
  show ?case
  proof (cases "y = s")
    case True
    then have notin: "s \<notin> set ys" using Cons.prems(1) by simp
    have "current_holdings (trade_symbol date d p st s) s = current_holdings st s + d s
          \<or> (current_holdings (trade_symbol date d p st s) s = current_holdings st s
              \<and> (date, s) \<in> set (warnings (trade_symbol date d p st s)))"
      using Cons.prems(3) by (simp add: trade_symbol_def Let_def)
    then show ?thesis
      using True notin execute_trades_warnings_grow[of "trade_symbol date d p st s" date d p ys]
      by (auto simp add: execute_trades_Cons execute_trades_other)
  next
    case False
    then have "s \<in> set ys" and "distinct ys" using Cons.prems by auto
    then show ?thesis
      using False Cons.IH[of "trade_symbol date d p st y"] Cons.prems(3)
      by (simp add: execute_trades_Cons trade_symbol_other)
  qed
qed

lemma process_date_warnings:
  "warnings (process_date cfg bt st date p tw) =
   warnings (execute_trades date (shares_to_trade (charge_cost cfg bt st p tw) p tw) p
      (charge_cost cfg bt st p tw) (ASSET_SYMBOLS cfg))"
  by (simp add: process_date_stages record_date_keeps)

lemma process_date_holdings:
  "current_holdings (process_date cfg bt st date p tw) =
   current_holdings (execute_trades date (shares_to_trade (charge_cost cfg bt st p tw) p tw) p
      (charge_cost cfg bt st p tw) (ASSET_SYMBOLS cfg))"
  by (simp add: process_date_stages record_date_keeps)

lemma process_date_cash:
  "cash_balance (process_date cfg bt st date p tw) =
   cash_balance (execute_trades date (shares_to_trade (charge_cost cfg bt st p tw) p tw) p
      (charge_cost cfg bt st p tw) (ASSET_SYMBOLS cfg))"
  by (simp add: process_date_stages record_date_keeps)

lemma charge_cost_warnings: "warnings (charge_cost cfg bt st p tw) = warnings st"
  by (simp add: charge_cost_def Let_def)

lemma shares_to_trade_charged:
  "shares_to_trade (charge_cost cfg bt st p tw) p tw s =
   tw s * (asset_value (ASSET_SYMBOLS cfg) (current_holdings st) p + cash_balance st
           - calculate_trade_cost bt (map (previous_weights st) (ASSET_SYMBOLS cfg))
               (map tw (ASSET_SYMBOLS cfg))
               (asset_value (ASSET_SYMBOLS cfg) (current_holdings st) p + cash_balance st)) / p s
   - current_holdings st s"
  by (simp add: shares_to_trade_def charge_cost_def asset_value_def Let_def)

lemma trade_symbol_rule:
  "(0 < d s \<and> d s * p s \<le> cash_balance st \<longrightarrow>
      trade_symbol date d p st s =
        st\<lparr>current_holdings := (current_holdings st)(s := current_holdings st s + d s),
           cash_balance := cash_balance st - d s * p s\<rparr>)
   \<and> (0 < d s \<and> cash_balance st < d s * p s \<longrightarrow>
      trade_symbol date d p st s = st\<lparr>warnings := warnings st @ [(date, s)]\<rparr>)
   \<and> (d s < 0 \<longrightarrow>
      trade_symbol date d p st s =
        st\<lparr>current_holdings := (current_holdings st)(s := current_holdings st s + d s),
           cash_balance := cash_balance st - d s * p s\<rparr>)
   \<and> (d s < 0 \<and> 0 < p s \<longrightarrow>
      current_holdings (trade_symbol date d p st s) s < current_holdings st s
      \<and> cash_balance st < cash_balance (trade_symbol date d p st s))
   \<and> (d s = 0 \<longrightarrow> trade_symbol date d p st s = st)"
proof -
  have sell: "d s < 0 \<Longrightarrow> 0 < p s \<Longrightarrow> d s * p s < 0"
    by (simp add: mult_neg_pos)
  show ?thesis
    using sell by (auto simp add: trade_symbol_def Let_def)
qed

text \<open>
  Claim C4. In the execution step of a date the symbols are taken in the order of the
  asset universe, each with the share delta computed before the loop from the target
  weights, the value after the cost and the prices. A positive delta whose notional (delta
  times price) the cash covers is bought: the holdings of the symbol grow by the delta and
  the cash falls by the notional. A positive delta whose notional exceeds the cash is
  skipped whole: the state stays as it is but for the warning that is reported. A negative
  delta is sold in full without any look at the cash: the holdings of the symbol fall and,
  at a positive price, the cash rises. A zero delta changes nothing. The loop over no
  symbol returns the state it was given, and the loop over a symbol and the rest trades the
  symbol and goes on with the rest; the holdings, the cash and the warnings of the date are
  those of this loop over the asset universe, started from the state with the cost
  deducted. Over a universe of distinct symbols, after the date every symbol with a
  negative delta holds the delta more (a sell is never blocked), every symbol with a
  positive delta holds either the delta more or what it held, the latter with a warning
  for the date and the symbol, and every symbol with a zero delta holds what it held.
\<close>

theorem trade_execution_rule:
  "(0 < d s \<and> d s * p s \<le> cash_balance st \<longrightarrow>
      trade_symbol date d p st s =
        st\<lparr>current_holdings := (current_holdings st)(s := current_holdings st s + d s),
           cash_balance := cash_balance st - d s * p s\<rparr>)
   \<and> (0 < d s \<and> cash_balance st < d s * p s \<longrightarrow>
      trade_symbol date d p st s = st\<lparr>warnings := warnings st @ [(date, s)]\<rparr>)
   \<and> (d s < 0 \<longrightarrow>
      trade_symbol date d p st s =
        st\<lparr>current_holdings := (current_holdings st)(s := current_holdings st s + d s),
           cash_balance := cash_balance st - d s * p s\<rparr>)
   \<and> (d s < 0 \<and> 0 < p s \<longrightarrow>
      current_holdings (trade_symbol date d p st s) s < current_holdings st s
      \<and> cash_balance st < cash_balance (trade_symbol date d p st s))
   \<and> (d s = 0 \<longrightarrow> trade_symbol date d p st s = st)
   \<and> execute_trades date d p st [] = st
   \<and> execute_trades date d p st (s # rest) = execute_trades date d p (trade_symbol date d p st s) rest
   \<and> current_holdings (process_date cfg bt st date p tw) =
       current_holdings (execute_trades date (shares_to_trade (charge_cost cfg bt st p tw) p tw) p
          (charge_cost cfg bt st p tw) (ASSET_SYMBOLS cfg))
   \<and> cash_balance (process_date cfg bt st date p tw) =
       cash_balance (execute_trades date (shares_to_trade (charge_cost cfg bt st p tw) p tw) p
          (charge_cost cfg bt st p tw) (ASSET_SYMBOLS cfg))
   \<and> warnings (process_date cfg bt st date p tw) =
       warnings (execute_trades date (shares_to_trade (charge_cost cfg bt st p tw) p tw) p
          (charge_cost cfg bt st p tw) (ASSET_SYMBOLS cfg))
   \<and> shares_to_trade (charge_cost cfg bt st p tw) p tw s =
       tw s * (asset_value (ASSET_SYMBOLS cfg) (current_holdings st) p + cash_balance st
               - calculate_trade_cost bt (map (previous_weights st) (ASSET_SYMBOLS cfg))
                   (map tw (ASSET_SYMBOLS cfg))
                   (asset_value (ASSET_SYMBOLS cfg) (current_holdings st) p + cash_balance st)) / p s
       - current_holdings st s
   \<and> cash_balance (charge_cost cfg bt st p tw) =
       cash_balance st
       - calculate_trade_cost bt (map (previous_weights st) (ASSET_SYMBOLS cfg))
           (map tw (ASSET_SYMBOLS cfg))
           (asset_value (ASSET_SYMBOLS cfg) (current_holdings st) p + cash_balance st)
   \<and> current_holdings (charge_cost cfg bt st p tw) = current_holdings st
   \<and> warnings (charge_cost cfg bt st p tw) = warnings st
   \<and> (distinct (ASSET_SYMBOLS cfg) \<and> s \<in> set (ASSET_SYMBOLS cfg)
        \<and> shares_to_trade (charge_cost cfg bt st p tw) p tw s < 0 \<longrightarrow>
        current_holdings (process_date cfg bt st date p tw) s =
          current_holdings st s + shares_to_trade (charge_cost cfg bt st p tw) p tw s)
   \<and> (distinct (ASSET_SYMBOLS cfg) \<and> s \<in> set (ASSET_SYMBOLS cfg)
        \<and> 0 < shares_to_trade (charge_cost cfg bt st p tw) p tw s \<longrightarrow>
        current_holdings (process_date cfg bt st date p tw) s =
          current_holdings st s + shares_to_trade (charge_cost cfg bt st p tw) p tw s
        \<or> (current_holdings (process_date cfg bt st date p tw) s = current_holdings st s
            \<and> (date, s) \<in> set (warnings (process_date cfg bt st date p tw))))
   \<and> (shares_to_trade (charge_cost cfg bt st p tw) p tw s = 0 \<longrightarrow>
        current_holdings (process_date cfg bt st date p tw) s = current_holdings st s)"
proof -
  let ?st1 = "charge_cost cfg bt st p tw"
  let ?dl = "shares_to_trade ?st1 p tw"
  have sell: "distinct (ASSET_SYMBOLS cfg) \<Longrightarrow> s \<in> set (ASSET_SYMBOLS cfg) \<Longrightarrow> ?dl s < 0 \<Longrightarrow>
        current_holdings (process_date cfg bt st date p tw) s = current_holdings st s + ?dl s"
    using execute_trades_sell[of "ASSET_SYMBOLS cfg" s ?dl date p ?st1]
    by (simp only: process_date_holdings charge_cost_fields(2))
  have buy: "distinct (ASSET_SYMBOLS cfg) \<Longrightarrow> s \<in> set (ASSET_SYMBOLS cfg) \<Longrightarrow> 0 < ?dl s \<Longrightarrow>
        current_holdings (process_date cfg bt st date p tw) s = current_holdings st s + ?dl s
        \<or> (current_holdings (process_date cfg bt st date p tw) s = current_holdings st s
            \<and> (date, s) \<in> set (warnings (process_date cfg bt st date p tw)))"
    using execute_trades_buy[of "ASSET_SYMBOLS cfg" s ?dl date p ?st1]
    by (simp only: process_date_holdings process_date_warnings charge_cost_fields(2))
  have hold: "?dl s = 0 \<Longrightarrow>
        current_holdings (process_date cfg bt st date p tw) s = current_holdings st s"
    using execute_trades_hold[of ?dl s date p ?st1 "ASSET_SYMBOLS cfg"]
    by (simp only: process_date_holdings charge_cost_fields(2))
  have cash1: "cash_balance ?st1 =
       cash_balance st
       - calculate_trade_cost bt (map (previous_weights st) (ASSET_SYMBOLS cfg))
           (map tw (ASSET_SYMBOLS cfg))
           (asset_value (ASSET_SYMBOLS cfg) (current_holdings st) p + cash_balance st)"
    by (simp only: charge_cost_fields(1,3))
  show ?thesis
    apply (intro conjI)
    using trade_symbol_rule[of d s p st date] apply blast
    using trade_symbol_rule[of d s p st date] apply blast
    using trade_symbol_rule[of d s p st date] apply blast
    using trade_symbol_rule[of d s p st date] apply blast
    using trade_symbol_rule[of d s p st date] apply blast
    apply (rule execute_trades_Nil)
    apply (rule execute_trades_Cons)
    apply (rule process_date_holdings)
    apply (rule process_date_cash)
    apply (rule process_date_warnings)
    apply (rule shares_to_trade_charged)
    apply (rule cash1)
    apply (rule charge_cost_fields(2))
    apply (rule charge_cost_warnings)
    using sell apply blast
    using buy apply blast
    using hold apply blast
    done
qed

theorem trade_execution_rule_witness:
  "trade_symbol 0 (\<lambda>s. 5) (\<lambda>s. 2) (initial_state free_backtester) ''A'' =
     (initial_state free_backtester)\<lparr>current_holdings := (\<lambda>s. 0)(''A'' := 5), cash_balance := 90\<rparr>
   \<and> trade_symbol 0 (\<lambda>s. 60) (\<lambda>s. 2) (initial_state free_backtester) ''A'' =
     (initial_state free_backtester)\<lparr>warnings := [(0, ''A'')]\<rparr>
   \<and> trade_symbol 0 (\<lambda>s. - 5) (\<lambda>s. 2) (initial_state free_backtester) ''A'' =
     (initial_state free_backtester)\<lparr>current_holdings := (\<lambda>s. 0)(''A'' := - 5), cash_balance := 110\<rparr>
   \<and> current_holdings (trade_symbol 0 (\<lambda>s. - 5) (\<lambda>s. 2) (initial_state free_backtester) ''A'') ''A''
       < current_holdings (initial_state free_backtester) ''A''
   \<and> cash_balance (initial_state free_backtester)
       < cash_balance (trade_symbol 0 (\<lambda>s. - 5) (\<lambda>s. 2) (initial_state free_backtester) ''A'')
   \<and> trade_symbol 0 (\<lambda>s. 0) (\<lambda>s. 2) (initial_state free_backtester) ''A'' = initial_state free_backtester
   \<and> execute_trades 0 (\<lambda>s. 5) (\<lambda>s. 2) (initial_state free_backtester) [''A'', ''B''] =
     (initial_state free_backtester)
       \<lparr>current_holdings := (\<lambda>s. 0)(''A'' := 5, ''B'' := 5), cash_balance := 80\<rparr>
   \<and> distinct (ASSET_SYMBOLS two_assets) \<and> ''A'' \<in> set (ASSET_SYMBOLS two_assets)
   \<and> ''B'' \<in> set (ASSET_SYMBOLS two_assets)
   \<and> shares_to_trade (charge_cost two_assets free_backtester holding_A_state unit_prices all_in_B)
        unit_prices all_in_B ''A'' = - 100
   \<and> shares_to_trade (charge_cost two_assets free_backtester holding_A_state unit_prices all_in_B)
        unit_prices all_in_B ''B'' = 100
   \<and> current_holdings (process_date two_assets free_backtester holding_A_state 0 unit_prices all_in_B) ''A'' = 0
   \<and> current_holdings (process_date two_assets free_backtester holding_A_state 0 unit_prices all_in_B) ''B'' = 100
   \<and> cash_balance (process_date two_assets free_backtester holding_A_state 0 unit_prices all_in_B) = 0
   \<and> warnings (process_date two_assets free_backtester holding_A_state 0 unit_prices all_in_B) = []
   \<and> current_holdings (process_date two_assets_swapped free_backtester holding_A_state 0 unit_prices all_in_B) ''A'' = 0
   \<and> current_holdings (process_date two_assets_swapped free_backtester holding_A_state 0 unit_prices all_in_B) ''B'' = 0
   \<and> cash_balance (process_date two_assets_swapped free_backtester holding_A_state 0 unit_prices all_in_B) = 100
   \<and> warnings (process_date two_assets_swapped free_backtester holding_A_state 0 unit_prices all_in_B) = [(0, ''B'')]"
proof -
  let ?i = "initial_state free_backtester"
  let ?two = "\<lambda>s::symbol. 2::real"
  have cash: "cash_balance ?i = 100" and hold: "current_holdings ?i = (\<lambda>s. 0)" and warn: "warnings ?i = []"
    by (simp_all add: initial_state_def free_backtester_def Backtester_init_def)
  have buy: "trade_symbol 0 (\<lambda>s. 5) ?two ?i ''A'' =
               ?i\<lparr>current_holdings := (\<lambda>s. 0)(''A'' := 5), cash_balance := 90\<rparr>"
    using trade_execution_rule[where d = "\<lambda>s. 5" and s = "''A''" and p = ?two and st = ?i and date = 0
            and rest = "[]" and cfg = two_assets and bt = free_backtester and tw = all_in_B]
    by (simp add: cash hold)
  have skip: "trade_symbol 0 (\<lambda>s. 60) ?two ?i ''A'' = ?i\<lparr>warnings := [(0, ''A'')]\<rparr>"
    using trade_execution_rule[where d = "\<lambda>s. 60" and s = "''A''" and p = ?two and st = ?i and date = 0
            and rest = "[]" and cfg = two_assets and bt = free_backtester and tw = all_in_B]
    by (simp add: cash warn)
  have sell: "trade_symbol 0 (\<lambda>s. - 5) ?two ?i ''A'' =
               ?i\<lparr>current_holdings := (\<lambda>s. 0)(''A'' := - 5), cash_balance := 110\<rparr>"
    and sell_moves:
      "current_holdings (trade_symbol 0 (\<lambda>s. - 5) ?two ?i ''A'') ''A'' < current_holdings ?i ''A''"
      "cash_balance ?i < cash_balance (trade_symbol 0 (\<lambda>s. - 5) ?two ?i ''A'')"
    using trade_execution_rule[where d = "\<lambda>s. - 5" and s = "''A''" and p = ?two and st = ?i and date = 0
            and rest = "[]" and cfg = two_assets and bt = free_backtester and tw = all_in_B]
    by (simp_all add: cash hold)
  have none: "trade_symbol 0 (\<lambda>s. 0) ?two ?i ''A'' = ?i"
    using trade_execution_rule[where d = "\<lambda>s. 0" and s = "''A''" and p = ?two and st = ?i and date = 0
            and rest = "[]" and cfg = two_assets and bt = free_backtester and tw = all_in_B]
    by simp
  have nil: "execute_trades 0 (\<lambda>s. 5) ?two st [] = st" for st
    using trade_execution_rule[where d = "\<lambda>s. 5" and p = ?two and st = st and date = 0
            and s = "''A''" and rest = "[]" and cfg = two_assets and bt = free_backtester and tw = all_in_B]
    by simp
  have cons: "execute_trades 0 (\<lambda>s. 5) ?two st (s # rest) =
              execute_trades 0 (\<lambda>s. 5) ?two (trade_symbol 0 (\<lambda>s. 5) ?two st s) rest" for st s rest
    using trade_execution_rule[where d = "\<lambda>s. 5" and p = ?two and st = st and date = 0 and s = s
            and rest = rest and cfg = two_assets and bt = free_backtester and tw = all_in_B]
    by simp
  have loop: "execute_trades 0 (\<lambda>s. 5) ?two ?i [''A'', ''B''] =
              trade_symbol 0 (\<lambda>s. 5) ?two (trade_symbol 0 (\<lambda>s. 5) ?two ?i ''A'') ''B''"
    by (simp only: cons nil)
  have second: "trade_symbol 0 (\<lambda>s. 5) ?two (trade_symbol 0 (\<lambda>s. 5) ?two ?i ''A'') ''B'' =
                ?i\<lparr>current_holdings := (\<lambda>s. 0)(''A'' := 5, ''B'' := 5), cash_balance := 80\<rparr>"
    using trade_execution_rule[where d = "\<lambda>s. 5" and s = "''B''" and p = ?two
            and st = "trade_symbol 0 (\<lambda>s. 5) ?two ?i ''A''" and date = 0
            and rest = "[]" and cfg = two_assets and bt = free_backtester and tw = all_in_B]
    by (simp add: buy)
  have universe: "distinct (ASSET_SYMBOLS two_assets)" "''A'' \<in> set (ASSET_SYMBOLS two_assets)"
      "''B'' \<in> set (ASSET_SYMBOLS two_assets)"
      "distinct (ASSET_SYMBOLS two_assets_swapped)" "''A'' \<in> set (ASSET_SYMBOLS two_assets_swapped)"
    by (simp_all add: two_assets_def two_assets_swapped_def)
  have before: "current_holdings holding_A_state ''A'' = 100" "current_holdings holding_A_state ''B'' = 0"
    by (simp_all add: holding_A_state_def)
  have delta:
    "shares_to_trade (charge_cost two_assets free_backtester holding_A_state unit_prices all_in_B)
       unit_prices all_in_B ''A'' = - 100"
    "shares_to_trade (charge_cost two_assets free_backtester holding_A_state unit_prices all_in_B)
       unit_prices all_in_B ''B'' = 100"
    "shares_to_trade (charge_cost two_assets_swapped free_backtester holding_A_state unit_prices all_in_B)
       unit_prices all_in_B ''A'' = - 100"
    by (simp_all add: shares_to_trade_def charge_cost_def calculate_trade_cost_def two_assets_def
          two_assets_swapped_def default_settings_def holding_A_state_def initial_state_def
          free_backtester_def Backtester_init_def unit_prices_def all_in_B_def Let_def)
  have sells_in_full:
    "distinct (ASSET_SYMBOLS cfg) \<and> ''A'' \<in> set (ASSET_SYMBOLS cfg)
       \<and> shares_to_trade (charge_cost cfg free_backtester holding_A_state unit_prices all_in_B)
            unit_prices all_in_B ''A'' < 0 \<longrightarrow>
     current_holdings (process_date cfg free_backtester holding_A_state 0 unit_prices all_in_B) ''A'' =
       current_holdings holding_A_state ''A''
       + shares_to_trade (charge_cost cfg free_backtester holding_A_state unit_prices all_in_B)
           unit_prices all_in_B ''A''" for cfg
    using trade_execution_rule[where s = "''A''" and p = unit_prices and st = holding_A_state and date = 0
            and cfg = cfg and bt = free_backtester and tw = all_in_B
            and d = "\<lambda>s. 0" and rest = "[]"]
    by (elim conjE)
  have sold: "current_holdings (process_date two_assets free_backtester holding_A_state 0 unit_prices all_in_B) ''A'' = 0"
    using sells_in_full[of two_assets] by (simp add: universe delta before)
  have sold_swapped:
    "current_holdings (process_date two_assets_swapped free_backtester holding_A_state 0 unit_prices all_in_B) ''A'' = 0"
    using sells_in_full[of two_assets_swapped] by (simp add: universe delta before)
  have evaluated:
    "current_holdings (process_date two_assets free_backtester holding_A_state 0 unit_prices all_in_B) ''B'' = 100
     \<and> cash_balance (process_date two_assets free_backtester holding_A_state 0 unit_prices all_in_B) = 0
     \<and> warnings (process_date two_assets free_backtester holding_A_state 0 unit_prices all_in_B) = []
     \<and> current_holdings (process_date two_assets_swapped free_backtester holding_A_state 0 unit_prices all_in_B) ''B'' = 0
     \<and> cash_balance (process_date two_assets_swapped free_backtester holding_A_state 0 unit_prices all_in_B) = 100
     \<and> warnings (process_date two_assets_swapped free_backtester holding_A_state 0 unit_prices all_in_B) = [(0, ''B'')]"
    by (simp add: two_assets_def two_assets_swapped_def default_settings_def unit_prices_def all_in_B_def
        holding_A_state_def free_backtester_def Backtester_init_def initial_state_def process_date_def
        charge_cost_def calculate_trade_cost_def shares_to_trade_def execute_trades_def
        trade_symbol_def record_date_def Let_def)
  show ?thesis
    using buy skip sell sell_moves none loop second universe(1-3) delta(1,2) sold sold_swapped evaluated
    by simp
qed

section \<open>The order of the universe decides which buy is skipped\<close>

text \<open>
  Claim C5. With two assets at unit prices, capital 100, no costs and a target weight of
  60 percent for each, both desired buys are of 60 shares and the cash of 100 pays only
  one of them. In the order A, B the buy of A executes and the buy of B is skipped; in the
  order B, A the buy of B executes and the buy of A is skipped. The two orders end in
  different holdings.
\<close>

theorem execution_depends_on_universe_order:
  "current_holdings (process_date two_assets free_backtester (initial_state free_backtester) 0 unit_prices sixty_each) ''A'' = 60
   \<and> current_holdings (process_date two_assets free_backtester (initial_state free_backtester) 0 unit_prices sixty_each) ''B'' = 0
   \<and> cash_balance (process_date two_assets free_backtester (initial_state free_backtester) 0 unit_prices sixty_each) = 40
   \<and> warnings (process_date two_assets free_backtester (initial_state free_backtester) 0 unit_prices sixty_each) = [(0, ''B'')]
   \<and> current_holdings (process_date two_assets_swapped free_backtester (initial_state free_backtester) 0 unit_prices sixty_each) ''A'' = 0
   \<and> current_holdings (process_date two_assets_swapped free_backtester (initial_state free_backtester) 0 unit_prices sixty_each) ''B'' = 60
   \<and> cash_balance (process_date two_assets_swapped free_backtester (initial_state free_backtester) 0 unit_prices sixty_each) = 40
   \<and> warnings (process_date two_assets_swapped free_backtester (initial_state free_backtester) 0 unit_prices sixty_each) = [(0, ''A'')]
   \<and> shares_to_trade (charge_cost two_assets free_backtester (initial_state free_backtester) unit_prices sixty_each)
        unit_prices sixty_each ''A'' = 60
   \<and> shares_to_trade (charge_cost two_assets free_backtester (initial_state free_backtester) unit_prices sixty_each)
        unit_prices sixty_each ''B'' = 60
   \<and> cash_balance (charge_cost two_assets free_backtester (initial_state free_backtester) unit_prices sixty_each) = 100"
  by (simp add: two_assets_def two_assets_swapped_def default_settings_def unit_prices_def sixty_each_def
        free_backtester_def Backtester_init_def initial_state_def process_date_def
        charge_cost_def calculate_trade_cost_def shares_to_trade_def execute_trades_def
        trade_symbol_def record_date_def Let_def)

section \<open>The weights that are recorded\<close>

text \<open>What lines 98 to 107 write: the value of the holdings held before the trades of
  the date, over the total value after them.\<close>

lemma recorded_weights_formula:
  "Weights (last (portfolio_history_list (process_date cfg bt st date p tw)))
   = map (\<lambda>s. (s, if Total_Value (last (portfolio_history_list (process_date cfg bt st date p tw))) \<noteq> 0
                   then current_holdings st s * p s
                        / Total_Value (last (portfolio_history_list (process_date cfg bt st date p tw)))
                   else 0)) (ASSET_SYMBOLS cfg)"
  by (simp add: process_date_stages record_date_def Let_def)

lemma recorded_total_value:
  "Total_Value (last (portfolio_history_list (process_date cfg bt st date p tw)))
   = asset_value (ASSET_SYMBOLS cfg) (current_holdings (process_date cfg bt st date p tw)) p
     + cash_balance (process_date cfg bt st date p tw)"
  by (simp add: process_date_stages record_date_def asset_value_def Let_def)

text \<open>
  Claim C2. The claim asks that the weight recorded for a symbol, and carried forward as
  the previous weight, be the holdings after the trades times the price over the total
  value after the trades. On the first date of a run over two assets at prices 100 and 50,
  with capital 10000 and half of the value targeted in each, the total value after the
  trades is 9997 and the holdings of A after the trades are worth half of it, yet the
  weights recorded and carried forward are 0: the source divides the asset values
  computed before the trades.
\<close>

theorem recorded_weights_use_holdings_before_trades:
  "Weights (last (portfolio_history_list
      (process_date two_assets small_backtester (initial_state small_backtester) 0 prices_100_50 half_each)))
     = [(''A'', 0), (''B'', 0)]
   \<and> previous_weights
        (process_date two_assets small_backtester (initial_state small_backtester) 0 prices_100_50 half_each) ''A'' = 0
   \<and> Total_Value (last (portfolio_history_list
      (process_date two_assets small_backtester (initial_state small_backtester) 0 prices_100_50 half_each))) = 9997
   \<and> current_holdings
        (process_date two_assets small_backtester (initial_state small_backtester) 0 prices_100_50 half_each) ''A''
       * prices_100_50 ''A'' / 9997 = 1 / 2"
  by (simp add: two_assets_def default_settings_def prices_100_50_def half_each_def
        small_backtester_def Backtester_init_def initial_state_def process_date_def
        charge_cost_def calculate_trade_cost_def shares_to_trade_def execute_trades_def
        trade_symbol_def record_date_def Let_def)

section \<open>The allocator\<close>

lemma clip01_bounds: "w \<in> set (clip01 ws) \<Longrightarrow> 0 \<le> w \<and> w \<le> 1"
  by (auto simp: clip01_def)

lemma equal_weights_replicate: "equal_weights n = replicate n (1 / real n)"
  by (simp add: equal_weights_def)

lemma equal_weights_valid: "0 < n \<Longrightarrow> valid_weights (equal_weights n)"
  by (simp add: valid_weights_def equal_weights_replicate list_all_iff sum_list_replicate)

lemma sum_list_divide: "(\<Sum>w \<leftarrow> ws. w / (c::real)) = sum_list ws / c"
  by (induction ws) (simp_all add: add_divide_distrib)

lemma normalised_valid:
  assumes nonneg: "\<And>w. w \<in> set ws \<Longrightarrow> (0::real) \<le> w" and nz: "sum_list ws \<noteq> 0"
  shows "valid_weights (map (\<lambda>w. w / sum_list ws) ws)"
proof -
  have pos: "0 < sum_list ws"
    using sum_list_nonneg[of ws] nonneg nz by fastforce
  have "w / sum_list ws \<le> 1" if "w \<in> set ws" for w
    using member_le_sum_list[OF that nonneg] pos by simp
  moreover have "0 \<le> w / sum_list ws" if "w \<in> set ws" for w
    using nonneg[OF that] pos by simp
  ultimately show ?thesis
    using nz by (simp add: valid_weights_def list_all_iff sum_list_divide)
qed

lemma renormalise_valid:
  "0 < n \<Longrightarrow>
   valid_weights (if sum_list (clip01 xs) \<noteq> 0
                  then map (\<lambda>w. w / sum_list (clip01 xs)) (clip01 xs) else equal_weights n)"
  using normalised_valid[of "clip01 xs"] clip01_bounds[of _ xs] equal_weights_valid[of n]
  by auto


lemma mvo_solve:
  assumes "expected_returns \<noteq> []" and "target_risk \<noteq> None \<or> risk_aversion_lambda \<noteq> None"
  shows "\<exists>p. mean_variance_optimization m expected_returns cov target_risk risk_aversion_lambda c
              = Inr (solve m p (length expected_returns))"
  using assms
  by (auto simp: mean_variance_optimization_def choose_objective_def Let_def split: option.splits)

text \<open>The three outcomes of the solver. A solver that converges gives valid weights and
  one that reports no convergence gives the equal weights; one that raises gives a vector
  of ones.\<close>

lemma allocator_success_valid:
  assumes "expected_returns \<noteq> []" and "target_risk \<noteq> None \<or> risk_aversion_lambda \<noteq> None"
    and "\<And>p. \<exists>x. m p = Success x"
  shows "\<exists>ws. mean_variance_optimization m expected_returns cov target_risk risk_aversion_lambda c = Inr ws
              \<and> valid_weights ws"
proof -
  obtain p where p: "mean_variance_optimization m expected_returns cov target_risk risk_aversion_lambda c
                     = Inr (solve m p (length expected_returns))"
    using mvo_solve[OF assms(1,2)] by blast
  obtain x where "m p = Success x" using assms(3) by blast
  then have "valid_weights (solve m p (length expected_returns))"
    using renormalise_valid[of "length expected_returns" x] assms(1) by (simp add: solve_def Let_def)
  with p show ?thesis by simp
qed

lemma allocator_no_convergence_equal_weights:
  assumes "expected_returns \<noteq> []" and "target_risk \<noteq> None \<or> risk_aversion_lambda \<noteq> None"
    and "\<And>p. m p = Failed"
  shows "mean_variance_optimization m expected_returns cov target_risk risk_aversion_lambda c
         = Inr (equal_weights (length expected_returns))"
  using mvo_solve[OF assms(1,2), of m cov c] assms(3) by (auto simp: solve_def)

lemma allocator_exception_all_ones:
  assumes "expected_returns \<noteq> []" and "target_risk \<noteq> None \<or> risk_aversion_lambda \<noteq> None"
    and "\<And>p. m p = Raised"
  shows "mean_variance_optimization m expected_returns cov target_risk risk_aversion_lambda c
         = Inr (replicate (length expected_returns) 1)"
  using mvo_solve[OF assms(1,2), of m cov c] assms(3) by (auto simp: solve_def)

text \<open>With a risk aversion and the sum-to-one option, the constraints handed to the
  solver are the two keys of the first dictionary followed by a dictionary.\<close>

lemma utility_constraints_hold_keys:
  "add_sum_to_one both_constraints None w (Single (Eq f)) =
     Tuple [Key ''type'', Key ''fun'', Member (Eq (\<lambda>w. sum_list w - 1))]"
  by (simp add: add_sum_to_one_def both_constraints_def constraint_flag_def)

text \<open>
  Claim C3. The claim asks that the allocator return the equal-weight vector, 1/N for each
  asset, whenever the solver fails to converge or raises, so that every vector it returns
  sums to 1. With two assets, a risk aversion of 1/2, both constraint options set and a
  solver that raises, the allocator returns the vector (1, 1), which sums to 2, where the
  equal-weight vector is (1/2, 1/2).
\<close>

theorem exception_fallback_is_all_ones:
  "mean_variance_optimization raising_minimize [1 / 100, 2 / 100] identity_cov None (Some (1 / 2))
     both_constraints = Inr [1, 1]
   \<and> sum_list [1, 1 :: real] = 2
   \<and> equal_weights 2 = [1 / 2, 1 / 2]"
  by (simp add: mean_variance_optimization_def choose_objective_def solve_def raising_minimize_def
        equal_weights_def numeral_2_eq_2 Let_def)

text \<open>
  Claim C9, as the source has it. The allocator raises, and then a \<open>ValueError\<close>, exactly
  when the vector of expected returns is not empty and neither a target risk nor a risk
  aversion is given; no outcome of the solver makes it raise. An empty vector of expected
  returns is not an error: the allocator returns the empty weight vector, whatever the
  objective.
\<close>

theorem allocator_configuration_error:
  "((\<exists>e. mean_variance_optimization minimize_fn expected_returns cov_matrix target_risk
            risk_aversion_lambda c = Inl e)
      \<longleftrightarrow> expected_returns \<noteq> [] \<and> target_risk = None \<and> risk_aversion_lambda = None)
   \<and> (expected_returns \<noteq> [] \<and> target_risk = None \<and> risk_aversion_lambda = None \<longrightarrow>
        mean_variance_optimization minimize_fn expected_returns cov_matrix target_risk
          risk_aversion_lambda c = Inl ValueError)
   \<and> (expected_returns = [] \<longrightarrow>
        mean_variance_optimization minimize_fn expected_returns cov_matrix target_risk
          risk_aversion_lambda c = Inr [])"
  by (auto simp: mean_variance_optimization_def choose_objective_def Let_def split: option.splits)

theorem allocator_configuration_error_witness:
  "mean_variance_optimization failing_minimize [1 / 100, 2 / 100] identity_cov None None both_constraints
     = Inl ValueError
   \<and> mean_variance_optimization failing_minimize [] identity_cov (Some 1) None both_constraints = Inr []
   \<and> (\<nexists>e. mean_variance_optimization raising_minimize [1 / 100, 2 / 100] identity_cov None (Some 1)
            both_constraints = Inl e)"
  using allocator_configuration_error[of failing_minimize "[1 / 100, 2 / 100]" identity_cov None None both_constraints]
        allocator_configuration_error[of failing_minimize "[]" identity_cov "Some 1" None both_constraints]
        allocator_configuration_error[of raising_minimize "[1 / 100, 2 / 100]" identity_cov None "Some 1" both_constraints]
  by simp

text \<open>
  Claim C9, as stated, fails: with an empty asset universe and neither a target risk nor a
  risk aversion, the allocator raises nothing and returns the empty weight vector.
\<close>

theorem empty_universe_is_no_error_counterexample:
  "mean_variance_optimization raising_minimize [] \<lparr>columns = [], rows = []\<rparr> None None None = Inr []"
  by (simp add: mean_variance_optimization_def)

section \<open>The estimators\<close>

text \<open>
  Claim C7, as the source has it. On a return window with no rows the covariance
  estimator returns the empty frame and the expected-return estimator the empty series;
  neither signals an error.
\<close>

theorem estimators_return_empty_on_empty_window:
  assumes "rows returns = []"
  shows "calculate_covariance_matrix returns = Inr \<lparr>columns = [], rows = []\<rparr>
         \<and> calculate_expected_returns returns = Inr []"
  using assms by (simp add: calculate_covariance_matrix_def calculate_expected_returns_def df_empty_def)

theorem estimators_return_empty_on_empty_window_witness:
  "rows \<lparr>columns = [''A''], rows = []\<rparr> = []
   \<and> calculate_covariance_matrix \<lparr>columns = [''A''], rows = []\<rparr> = Inr \<lparr>columns = [], rows = []\<rparr>
   \<and> calculate_expected_returns \<lparr>columns = [''A''], rows = []\<rparr> = Inr []"
  using estimators_return_empty_on_empty_window[of "\<lparr>columns = [''A''], rows = []\<rparr>"]
  by simp

text \<open>
  Claim C7, as stated, fails: on the window of two assets with no rows neither estimator
  signals \<open>EmptyWindowError\<close>; each returns a value.
\<close>

theorem estimators_signal_no_error_counterexample:
  "rows zero_row_window = []
   \<and> calculate_covariance_matrix zero_row_window \<noteq> Inl EmptyWindowError
   \<and> calculate_expected_returns zero_row_window \<noteq> Inl EmptyWindowError
   \<and> calculate_covariance_matrix zero_row_window = Inr \<lparr>columns = [], rows = []\<rparr>
   \<and> calculate_expected_returns zero_row_window = Inr []"
  by (simp add: calculate_covariance_matrix_def calculate_expected_returns_def df_empty_def
        zero_row_window_def)

section \<open>The regime strategy selector\<close>

text \<open>
  Claim C6. For every regime label, every solver and every return window with no rows,
  the selector returns the equal-weight vector, 1/N for each of the N columns, and makes
  no call of the allocator.
\<close>

theorem empty_window_equal_weights:
  assumes "rows lookback_returns = []"
  shows "generate_regime_specific_weights cfg minimize_fn current_regime lookback_returns
         = ([], Inr (replicate (length (columns lookback_returns))
                       (1 / real (length (columns lookback_returns)))))"
  using assms by (simp add: generate_regime_specific_weights_def df_empty_def equal_weights_def Let_def)

theorem empty_window_equal_weights_witness:
  "rows zero_row_window = []
   \<and> generate_regime_specific_weights default_settings raising_minimize ''High_Vol'' zero_row_window
       = ([], Inr [1 / 2, 1 / 2])"
  using empty_window_equal_weights[of zero_row_window default_settings raising_minimize "''High_Vol''"]
  by (simp add: zero_row_window_def numeral_2_eq_2)



section \<open>The regime classifier\<close>

lemma assign_where_nth:
  "length msk = length regime \<Longrightarrow> i < length regime \<Longrightarrow>
   assign_where regime msk label ! i = (if msk ! i then label else regime ! i)"
  by (simp add: assign_where_def)

lemma length_assign_where:
  "length msk = length regime \<Longrightarrow> length (assign_where regime msk label) = length regime"
  by (simp add: assign_where_def)

text \<open>
  Claim C8, as the source has it. With thresholds 0 \<le> low \<le> high, a volatility value
  at or below the low threshold is labelled \<open>Low_Vol\<close>; a value above the low threshold
  and at or above the high threshold is labelled \<open>High_Vol\<close>; any other value is labelled
  \<open>Normal_Vol\<close>. A value that meets both comparisons, which equals both thresholds, is
  labelled \<open>Low_Vol\<close>, since the assignment of \<open>Low_Vol\<close> is made last.
\<close>

theorem regime_classification:
  assumes "0 \<le> low_threshold" and "low_threshold \<le> high_threshold"
    and "map_of df vol_col = Some vol" and "i < length vol"
  shows "\<exists>regime. identify_regimes df vol_col high_threshold low_threshold = Inr regime
           \<and> length regime = length vol
           \<and> regime ! i = (if vol ! i \<le> low_threshold then ''Low_Vol''
                           else if vol ! i \<ge> high_threshold then ''High_Vol''
                           else ''Normal_Vol'')"
  using assms
  by (simp add: identify_regimes_def Let_def assign_where_nth length_assign_where)

theorem regime_classification_witness:
  "(0::real) \<le> 5 / 1000 \<and> (5::real) / 1000 \<le> 15 / 1000
   \<and> map_of [(''Volatility'', [2 / 100, 1 / 100, 1 / 1000])] ''Volatility'' = Some [2 / 100, 1 / 100, 1 / 1000]
   \<and> identify_regimes [(''Volatility'', [2 / 100, 1 / 100, 1 / 1000])] ''Volatility'' (15 / 1000) (5 / 1000)
       = Inr [''High_Vol'', ''Normal_Vol'', ''Low_Vol'']"
  using regime_classification[of "5 / 1000" "15 / 1000" "[(''Volatility'', [2 / 100, 1 / 100, 1 / 1000])]"
          "''Volatility''" "[2 / 100, 1 / 100, 1 / 1000]" 0]
  by (simp add: identify_regimes_def assign_where_def)

text \<open>
  Claim C8, as stated, fails: with both thresholds at 1, the value 1 meets both
  comparisons and is labelled \<open>Low_Vol\<close>, not \<open>High_Vol\<close>.
\<close>

theorem both_thresholds_met_counterexample:
  "(0::real) \<le> 1 \<and> (1::real) \<le> 1 \<and> (1::real) \<ge> 1
   \<and> identify_regimes [(''Volatility'', [1])] ''Volatility'' 1 1 = Inr [''Low_Vol'']
   \<and> identify_regimes [(''Volatility'', [1])] ''Volatility'' 1 1 \<noteq> Inr [''High_Vol'']"
  by (simp add: identify_regimes_def assign_where_def)

end
